theory Spec2Isabelle
  imports Main "HOL-Library.Finite_Map"
begin

section \<open>The lottery contract of \<^verbatim>\<open>src/lottery.py\<close>\<close>

text \<open>
  The contract is written in SmartPy. Its storage is a record of five fields, each entry
  point reads the call context (\<^verbatim>\<open>sp.sender\<close>, \<^verbatim>\<open>sp.amount\<close>, \<^verbatim>\<open>sp.now\<close>,
  \<^verbatim>\<open>sp.balance\<close>), checks its preconditions with \<^verbatim>\<open>sp.verify\<close>, updates the storage
  and emits transfers with \<^verbatim>\<open>sp.send\<close>.
  A call that fails is aborted as a whole by the platform.

  Types: \<^verbatim>\<open>sp.TNat\<close> is \<open>nat\<close>, \<^verbatim>\<open>sp.TInt\<close> and timestamps (seconds) are \<open>int\<close>,
  \<^verbatim>\<open>sp.TMutez\<close> is a \<open>nat\<close> counting mutez (the source shows no bound on it, and the
  specification describes currency as unbounded), an address is a string, and
  \<^verbatim>\<open>sp.map(tkey = sp.TNat, tvalue = sp.TAddress)\<close> is a finite map.
\<close>

type_synonym address = string
type_synonym mutez = nat

record storage =
  players :: "(nat, address) fmap"
  ticket_cost :: mutez
  tickets_available :: nat
  max_tickets :: nat
  admin :: address

text \<open>
  Besides the sender, the amount, the time and the balance, a call sees the chain it
  runs on: \<open>accepts_unit\<close> holds of the addresses at which
  \<^verbatim>\<open>sp.contract(sp.TUnit, address)\<close> finds a contract, that is every implicit account
  and every contract with an entry point of type unit.
\<close>

record call_context =
  sender :: address
  amount :: mutez
  now :: int
  balance :: mutez
  accepts_unit :: "address \<Rightarrow> bool"

datatype operation = Transfer address mutez

text \<open>
  The first five errors are the messages of the \<^verbatim>\<open>sp.verify\<close> calls. The last four
  are the failures of the primitives the entry points use: \<^verbatim>\<open>sp.as_nat\<close> on a negative
  integer, \<^verbatim>\<open>%\<close> with divisor zero, reading a key that the map does not hold, and
  \<^verbatim>\<open>sp.send\<close> to an address that has no entry point of type unit.
\<close>

datatype error =
    NO_TICKETS_AVAILABLE
  | INVALID_AMOUNT
  | NOT_AUTHORIZED
  | GAME_ALREADY_STARTED
  | GAME_IS_YET_TO_END
  | AS_NAT_NEGATIVE
  | DIVISION_BY_ZERO
  | MISSING_KEY
  | NO_UNIT_ENTRY_POINT

text \<open>
  A call either completes, with the new storage and the transfers it emitted, or fails.
  A failure carries the storage and the transfers as they stood at the failing statement,
  so that what a failing call had already done can be stated.
\<close>

datatype outcome =
    Done storage "operation list"
  | Failed error storage "operation list"

definition as_nat :: "int \<Rightarrow> nat option" where
  "as_nat i = (if i < 0 then None else Some (nat i))"

definition mod_nat :: "nat \<Rightarrow> nat \<Rightarrow> nat option" where
  "mod_nat a b = (if b = 0 then None else Some (a mod b))"

text \<open>
  \<^verbatim>\<open>sp.send(destination, amount)\<close> is
  \<^verbatim>\<open>sp.transfer(sp.unit, amount, sp.contract(sp.TUnit, destination).open_some())\<close>:
  it fails in the entry point when the destination has no entry point of type unit, and
  otherwise adds one transfer to the operations of the call.
\<close>

definition send :: "call_context \<Rightarrow> address \<Rightarrow> mutez \<Rightarrow> operation option" where
  "send ctx destination amt =
     (if accepts_unit ctx destination then Some (Transfer destination amt) else None)"

text \<open>\<^verbatim>\<open>sp.len\<close> of a map is the number of its keys.\<close>

definition len :: "(nat, address) fmap \<Rightarrow> nat" where
  "len ps = fcard (fmdom ps)"

subsection \<open>\<^verbatim>\<open>Lottery.__init__\<close>\<close>

definition tez :: "nat \<Rightarrow> mutez" where
  "tez n = n * 1000000"

definition init_storage :: storage where
  "init_storage =
     \<lparr> players = fmempty,
       ticket_cost = tez 1,
       tickets_available = 5,
       max_tickets = 5,
       admin = ''tz1i1THJ4MHiqTWsHNcZNU4YT8tPtqZW5NYE'' \<rparr>"

subsection \<open>\<^verbatim>\<open>buy_ticket\<close>\<close>

text \<open>
  The loop of lines 36 to 38:
  \<^verbatim>\<open>while idx < can_buy: players[len(players)] = sender; idx += 1\<close>.
  It writes at the index \<^verbatim>\<open>len(players)\<close> whether or not the map holds that key.
\<close>

function buy_loop :: "address \<Rightarrow> nat \<Rightarrow> nat \<Rightarrow> (nat, address) fmap \<Rightarrow> (nat, address) fmap" where
  "buy_loop who idx can_buy ps =
     (if idx < can_buy then buy_loop who (idx + 1) can_buy (fmupd (len ps) who ps) else ps)"
  by pat_completeness auto
termination
  by (relation "measure (\<lambda>(who, idx, can_buy, ps). can_buy - idx)") auto

declare buy_loop.simps [simp del]

text \<open>
  Line 40 converts the difference of two naturals with \<^verbatim>\<open>sp.as_nat\<close>, which fails on
  a negative number. Line 43 subtracts the cost from the amount after line 30 has checked
  that the amount covers it, so natural subtraction gives the difference.
\<close>

definition buy_ticket :: "call_context \<Rightarrow> nat \<Rightarrow> storage \<Rightarrow> outcome" where
  "buy_ticket ctx num_tickets s =
     (if \<not> tickets_available s > 0 then Failed NO_TICKETS_AVAILABLE s []
      else
        let can_buy = (if num_tickets > tickets_available s then tickets_available s
                       else num_tickets);
            total_cost = can_buy * ticket_cost s
        in
          if \<not> amount ctx \<ge> total_cost then Failed INVALID_AMOUNT s []
          else
            let s1 = s\<lparr>players := buy_loop (sender ctx) 0 can_buy (players s)\<rparr> in
            (case as_nat (int (tickets_available s1) - int can_buy) of
               None \<Rightarrow> Failed AS_NAT_NEGATIVE s1 []
             | Some left \<Rightarrow>
                 let s2 = s1\<lparr>tickets_available := left\<rparr>;
                     extra_balance = amount ctx - total_cost
                 in
                   if extra_balance > 0 then
                     (case send ctx (sender ctx) extra_balance of
                        None \<Rightarrow> Failed NO_UNIT_ENTRY_POINT s2 []
                      | Some refund \<Rightarrow> Done s2 [refund])
                   else Done s2 []))"

subsection \<open>\<^verbatim>\<open>change_ticket_cost\<close> and \<^verbatim>\<open>change_max_tickets\<close>\<close>

definition change_ticket_cost :: "call_context \<Rightarrow> mutez \<Rightarrow> storage \<Rightarrow> outcome" where
  "change_ticket_cost ctx new_ticket_cost s =
     (if sender ctx \<noteq> admin s then Failed NOT_AUTHORIZED s []
      else if tickets_available s \<noteq> max_tickets s then Failed GAME_ALREADY_STARTED s []
      else Done (s\<lparr>ticket_cost := new_ticket_cost\<rparr>) [])"

definition change_max_tickets :: "call_context \<Rightarrow> nat \<Rightarrow> storage \<Rightarrow> outcome" where
  "change_max_tickets ctx new_max_tickets s =
     (if sender ctx \<noteq> admin s then Failed NOT_AUTHORIZED s []
      else if tickets_available s \<noteq> max_tickets s then Failed GAME_ALREADY_STARTED s []
      else
        let s1 = s\<lparr>max_tickets := new_max_tickets\<rparr>
        in Done (s1\<lparr>tickets_available := max_tickets s1\<rparr>) [])"

subsection \<open>\<^verbatim>\<open>end_game\<close>\<close>

text \<open>Line 79: \<^verbatim>\<open>sp.as_nat(sp.now - sp.timestamp(0)) % self.data.max_tickets\<close>.\<close>

definition winner_id :: "call_context \<Rightarrow> storage \<Rightarrow> error + nat" where
  "winner_id ctx s =
     (case as_nat (now ctx - 0) of
        None \<Rightarrow> Inl AS_NAT_NEGATIVE
      | Some t \<Rightarrow>
          (case mod_nat t (max_tickets s) of
             None \<Rightarrow> Inl DIVISION_BY_ZERO
           | Some w \<Rightarrow> Inr w))"

definition end_game :: "call_context \<Rightarrow> storage \<Rightarrow> outcome" where
  "end_game ctx s =
     (if tickets_available s \<noteq> 0 then Failed GAME_IS_YET_TO_END s []
      else
        (case winner_id ctx s of
           Inl e \<Rightarrow> Failed e s []
         | Inr w \<Rightarrow>
             (case fmlookup (players s) w of
                None \<Rightarrow> Failed MISSING_KEY s []
              | Some winner_address \<Rightarrow>
                  (case send ctx winner_address (balance ctx) of
                     None \<Rightarrow> Failed NO_UNIT_ENTRY_POINT s []
                   | Some reward \<Rightarrow>
                       let s1 = s\<lparr>players := fmempty\<rparr>
                       in Done (s1\<lparr>tickets_available := max_tickets s1\<rparr>) [reward]))))"

subsection \<open>Calls and reachable states\<close>

datatype call =
    Buy_ticket nat
  | Change_ticket_cost mutez
  | Change_max_tickets nat
  | End_game

fun exec :: "call_context \<Rightarrow> call \<Rightarrow> storage \<Rightarrow> outcome" where
  "exec ctx (Buy_ticket n) s = buy_ticket ctx n s"
| "exec ctx (Change_ticket_cost c) s = change_ticket_cost ctx c s"
| "exec ctx (Change_max_tickets m) s = change_max_tickets ctx m s"
| "exec ctx End_game s = end_game ctx s"

text \<open>
  The storage after any sequence of successful calls, starting from the storage that
  \<^verbatim>\<open>__init__\<close> sets. A failed call leaves the storage as it was, so it adds no state.
\<close>

inductive reachable :: "storage \<Rightarrow> bool" where
  reachable_init: "reachable init_storage"
| reachable_step: "reachable s \<Longrightarrow> exec ctx c s = Done s' ops \<Longrightarrow> reachable s'"

subsection \<open>The invariants of the data model\<close>

definition ledger_inv :: "storage \<Rightarrow> bool" where
  "ledger_inv s \<longleftrightarrow>
     tickets_available s \<le> max_tickets s \<and>
     len (players s) = max_tickets s - tickets_available s"

text \<open>The ticket indexes are dense: every key is below the number of keys.\<close>

definition dense :: "(nat, address) fmap \<Rightarrow> bool" where
  "dense ps \<longleftrightarrow> fBall (fmdom ps) (\<lambda>k. k < len ps)"

section \<open>Auxiliary facts\<close>

subsection \<open>The ticket ledger\<close>

lemma len_fmempty [simp]: "len fmempty = 0"
  by (simp add: len_def)

lemma len_fmupd: "len (fmupd k v ps) = (if k |\<in>| fmdom ps then len ps else Suc (len ps))"
  by (simp add: len_def fcard_finsert_if)

lemma len_0_fmempty: "len ps = 0 \<Longrightarrow> ps = fmempty"
proof -
  assume "len ps = 0"
  then have "fmdom ps = {||}" by (simp add: len_def)
  then have "\<And>k. fmlookup ps k = None" by (simp add: fmdom_notD)
  then show "ps = fmempty" by (intro fmap_ext) simp
qed

lemma dense_fmempty [simp]: "dense fmempty"
  by (simp add: dense_def)

lemma dense_fresh: "dense ps \<Longrightarrow> len ps |\<notin>| fmdom ps"
  by (auto simp: dense_def)

lemma dense_fmupd: "dense ps \<Longrightarrow> dense (fmupd (len ps) v ps)"
  using dense_fresh [of ps] by (auto simp: dense_def len_fmupd)

text \<open>In a dense ledger the keys are exactly the numbers below its length.\<close>

lemma dense_dom:
  assumes "dense ps"
  shows "k |\<in>| fmdom ps \<longleftrightarrow> k < len ps"
proof -
  have sub: "fset (fmdom ps) \<subseteq> {..<len ps}"
    using assms by (auto simp: dense_def)
  have "card (fset (fmdom ps)) = card {..<len ps}"
    by (simp add: len_def fcard.rep_eq)
  with sub have "fset (fmdom ps) = {..<len ps}"
    by (simp add: card_subset_eq)
  then show ?thesis by auto
qed

lemma dense_lookup: "dense ps \<Longrightarrow> k < len ps \<Longrightarrow> \<exists>a. fmlookup ps k = Some a"
  by (simp add: dense_dom flip: fmlookup_dom_iff)

text \<open>
  On a dense ledger the loop appends: it leaves the old entries, adds the next
  \<open>can_buy - idx\<close> indexes for the buyer, and the ledger stays dense.
\<close>

lemma buy_loop_dense:
  "dense ps \<Longrightarrow>
     dense (buy_loop who idx n ps) \<and>
     len (buy_loop who idx n ps) = len ps + (n - idx) \<and>
     (\<forall>i. fmlookup (buy_loop who idx n ps) i =
            (if len ps \<le> i \<and> i < len ps + (n - idx) then Some who else fmlookup ps i))"
proof (induction who idx n ps rule: buy_loop.induct)
  case (1 who idx can_buy ps)
  show ?case
  proof (cases "idx < can_buy")
    case False
    then show ?thesis
      using "1.prems" by (auto simp: buy_loop.simps [of who idx can_buy ps])
  next
    case True
    let ?ps = "fmupd (len ps) who ps"
    have d: "dense ?ps" using "1.prems" by (rule dense_fmupd)
    have l: "len ?ps = Suc (len ps)"
      using dense_fresh [OF "1.prems"] by (simp add: len_fmupd)
    have old: "fmlookup ps i = None" if "len ps < i" for i
    proof -
      have "i |\<notin>| fmdom ps" using that dense_dom [OF "1.prems", of i] by simp
      then show ?thesis by (rule fmdom_notD)
    qed
    have step: "buy_loop who idx can_buy ps = buy_loop who (idx + 1) can_buy ?ps"
      using True by (simp add: buy_loop.simps [of who idx can_buy ps])
    from "1.IH" [OF True d] l True show ?thesis
      unfolding step by (auto simp: old)
  qed
qed

lemma buy_loop_none [simp]: "buy_loop who idx idx ps = ps"
  by (simp add: buy_loop.simps [of who idx idx ps])

subsection \<open>\<^verbatim>\<open>buy_ticket\<close> in closed form\<close>

text \<open>
  The number of tickets granted is the request clamped to the supply, so the
  \<^verbatim>\<open>sp.as_nat\<close> of line 40 never fails. The refund of line 45 is the one statement
  that can fail after the storage was updated.
\<close>

lemma buy_ticket_eq:
  "buy_ticket ctx n s =
     (let g = min n (tickets_available s);
          s2 = s\<lparr>players := buy_loop (sender ctx) 0 g (players s),
                 tickets_available := tickets_available s - g\<rparr>
      in
      if tickets_available s = 0 then Failed NO_TICKETS_AVAILABLE s []
      else if amount ctx < g * ticket_cost s then Failed INVALID_AMOUNT s []
      else if g * ticket_cost s < amount ctx then
        (if accepts_unit ctx (sender ctx)
         then Done s2 [Transfer (sender ctx) (amount ctx - g * ticket_cost s)]
         else Failed NO_UNIT_ENTRY_POINT s2 [])
      else Done s2 [])"
  by (auto simp: buy_ticket_def Let_def as_nat_def send_def min_def nat_diff_distrib'
           split: option.splits)

subsection \<open>Every reachable storage satisfies the data model\<close>

lemma buy_ticket_inv_dense:
  assumes "ledger_inv s" "dense (players s)" "buy_ticket ctx n s = Done s' ops"
  shows "ledger_inv s' \<and> dense (players s')"
proof -
  let ?g = "min n (tickets_available s)"
  have s': "s' = s\<lparr>players := buy_loop (sender ctx) 0 ?g (players s),
                     tickets_available := tickets_available s - ?g\<rparr>"
    using assms(3) by (simp add: buy_ticket_eq Let_def split: if_splits)
  from buy_loop_dense [OF assms(2), of "sender ctx" 0 ?g]
  have "dense (players s')" "len (players s') = len (players s) + ?g"
    by (simp_all add: s')
  with assms(1) show ?thesis
    by (auto simp: ledger_inv_def s')
qed

lemma change_ticket_cost_inv_dense:
  assumes "ledger_inv s" "dense (players s)" "change_ticket_cost ctx m s = Done s' ops"
  shows "ledger_inv s' \<and> dense (players s')"
proof -
  have "s' = s\<lparr>ticket_cost := m\<rparr>"
    using assms(3) by (simp add: change_ticket_cost_def split: if_splits)
  with assms(1,2) show ?thesis by (simp add: ledger_inv_def)
qed

lemma change_max_tickets_inv_dense:
  assumes "ledger_inv s" "dense (players s)" "change_max_tickets ctx m s = Done s' ops"
  shows "ledger_inv s' \<and> dense (players s')"
proof -
  have "tickets_available s = max_tickets s \<and>
        s' = s\<lparr>max_tickets := m, tickets_available := m\<rparr>"
    using assms(3) by (simp add: change_max_tickets_def Let_def split: if_splits)
  with assms(1,2) show ?thesis by (simp add: ledger_inv_def)
qed

lemma end_game_Done:
  assumes "end_game ctx s = Done s' ops"
  shows "tickets_available s = 0 \<and> 0 \<le> now ctx \<and> max_tickets s \<noteq> 0 \<and>
         (\<exists>a. fmlookup (players s) (nat (now ctx) mod max_tickets s) = Some a \<and>
              ops = [Transfer a (balance ctx)]) \<and>
         s' = s\<lparr>players := fmempty, tickets_available := max_tickets s\<rparr>"
proof -
  from assms have t: "tickets_available s = 0"
    by (simp add: end_game_def split: if_splits)
  from assms t have n: "0 \<le> now ctx"
    by (simp add: end_game_def winner_id_def as_nat_def split: if_splits)
  from assms t n have m: "max_tickets s \<noteq> 0"
    by (simp add: end_game_def winner_id_def as_nat_def mod_nat_def split: if_splits)
  from t n m have w: "winner_id ctx s = Inr (nat (now ctx) mod max_tickets s)"
    by (simp add: winner_id_def as_nat_def mod_nat_def)
  from assms t w show ?thesis
    using n m by (auto simp: end_game_def Let_def send_def split: option.splits if_splits)
qed

lemma end_game_inv_dense:
  assumes "end_game ctx s = Done s' ops"
  shows "ledger_inv s' \<and> dense (players s')"
proof -
  from end_game_Done [OF assms]
  have "s' = s\<lparr>players := fmempty, tickets_available := max_tickets s\<rparr>" by simp
  then show ?thesis by (simp add: ledger_inv_def)
qed

lemma exec_inv_dense:
  assumes "ledger_inv s" "dense (players s)" "exec ctx c s = Done s' ops"
  shows "ledger_inv s' \<and> dense (players s')"
proof (cases c)
  case (Buy_ticket n)
  with assms(3) have "buy_ticket ctx n s = Done s' ops" by simp
  with assms(1,2) show ?thesis by (rule buy_ticket_inv_dense)
next
  case (Change_ticket_cost m)
  with assms(3) have "change_ticket_cost ctx m s = Done s' ops" by simp
  with assms(1,2) show ?thesis by (rule change_ticket_cost_inv_dense)
next
  case (Change_max_tickets m)
  with assms(3) have "change_max_tickets ctx m s = Done s' ops" by simp
  with assms(1,2) show ?thesis by (rule change_max_tickets_inv_dense)
next
  case End_game
  with assms(3) have "end_game ctx s = Done s' ops" by simp
  then show ?thesis by (rule end_game_inv_dense)
qed

lemma init_inv_dense: "ledger_inv init_storage \<and> dense (players init_storage)"
  by (simp add: ledger_inv_def init_storage_def)

lemma reachable_inv_dense: "reachable s \<Longrightarrow> ledger_inv s \<and> dense (players s)"
proof (induction rule: reachable.induct)
  case reachable_init
  show ?case by (rule init_inv_dense)
next
  case (reachable_step s ctx c s' ops)
  from reachable_step.IH have "ledger_inv s" and "dense (players s)" by simp_all
  then show ?case using \<open>exec ctx c s = Done s' ops\<close> by (rule exec_inv_dense)
qed

text \<open>
  The two ledger invariants are not inductive without density. The loop writes at index
  \<^verbatim>\<open>len(players)\<close>, which is a free index only on a dense ledger: on a ledger whose
  single key is 1 the purchase overwrites that entry, and the count of entries falls
  behind the count of tickets sold. No reachable storage is of this kind
  (\<open>reachable_inv_dense\<close>).
\<close>

lemma ledger_inv_alone_not_inductive:
  "ledger_inv \<lparr>players = fmupd 1 ''alice'' fmempty, ticket_cost = tez 1,
      tickets_available = 4, max_tickets = 5, admin = ''carol''\<rparr> \<and>
   \<not> dense (fmupd 1 ''alice'' fmempty) \<and>
   buy_ticket \<lparr>sender = ''bob'', amount = tez 1, now = 20, balance = tez 1,
       accepts_unit = (\<lambda>a. True)\<rparr> 1
     \<lparr>players = fmupd 1 ''alice'' fmempty, ticket_cost = tez 1,
      tickets_available = 4, max_tickets = 5, admin = ''carol''\<rparr> =
   Done \<lparr>players = fmupd 1 ''bob'' fmempty, ticket_cost = tez 1,
      tickets_available = 3, max_tickets = 5, admin = ''carol''\<rparr> [] \<and>
   \<not> ledger_inv \<lparr>players = fmupd 1 ''bob'' fmempty, ticket_cost = tez 1,
      tickets_available = 3, max_tickets = 5, admin = ''carol''\<rparr>"
  by (simp add: buy_ticket_eq tez_def buy_loop.simps len_fmupd ledger_inv_def dense_def)

text \<open>
  Once \<^verbatim>\<open>max_tickets\<close> is zero, \<^verbatim>\<open>end_game\<close> passes its check of line 76 and then
  stops at the remainder of line 79.
\<close>

lemma end_game_max_zero:
  "tickets_available s = 0 \<Longrightarrow> max_tickets s = 0 \<Longrightarrow> 0 \<le> now ctx \<Longrightarrow>
     end_game ctx s = Failed DIVISION_BY_ZERO s []"
  by (simp add: end_game_def winner_id_def as_nat_def mod_nat_def)

section \<open>The claims\<close>

text \<open>
  Claim C1. In every storage the contract can be in, a successful call of any of the four
  entry points leads from a storage with \<^verbatim>\<open>tickets_available \<le> max_tickets\<close> and
  \<^verbatim>\<open>|players| = max_tickets - tickets_available\<close> to a storage with the same two
  properties. The proof rests on the ledger being dense (\<open>exec_inv_dense\<close>), which holds
  of every reachable storage (\<open>reachable_inv_dense\<close>).
\<close>

theorem ledger_invariant_preserved:
  assumes "reachable s" and "ledger_inv s" and "exec ctx c s = Done s' ops"
  shows "tickets_available s' \<le> max_tickets s' \<and>
         len (players s') = max_tickets s' - tickets_available s'"
proof -
  from assms(1) have "dense (players s)" by (simp add: reachable_inv_dense)
  with assms(2) have "ledger_inv s' \<and> dense (players s')"
    using assms(3) by (rule exec_inv_dense)
  then show ?thesis by (simp add: ledger_inv_def)
qed

theorem ledger_invariant_preserved_witness:
  "reachable init_storage \<and> ledger_inv init_storage \<and>
   exec \<lparr>sender = ''mike'', amount = tez 2, now = 20, balance = tez 2,
       accepts_unit = (\<lambda>a. True)\<rparr> (Buy_ticket 2)
     init_storage =
     Done (init_storage\<lparr>players := fmupd 1 ''mike'' (fmupd 0 ''mike'' fmempty),
                        tickets_available := 3\<rparr>) [] \<and>
   len (fmupd 1 ''mike'' (fmupd 0 ''mike'' fmempty)) = 5 - 3"
proof -
  have r: "reachable init_storage" by (rule reachable_init)
  have i: "ledger_inv init_storage" by (simp add: init_inv_dense)
  have e: "exec \<lparr>sender = ''mike'', amount = tez 2, now = 20, balance = tez 2,
       accepts_unit = (\<lambda>a. True)\<rparr> (Buy_ticket 2)
     init_storage =
     Done (init_storage\<lparr>players := fmupd 1 ''mike'' (fmupd 0 ''mike'' fmempty),
                        tickets_available := 3\<rparr>) []"
    by (simp add: buy_ticket_eq Let_def init_storage_def tez_def buy_loop.simps len_fmupd)
  from ledger_invariant_preserved [OF r i e] r i e show ?thesis
    by (simp add: init_storage_def)
qed

text \<open>
  Claim C2, as stated: for every call of \<^verbatim>\<open>end_game\<close> with
  \<^verbatim>\<open>tickets_available = 0\<close> in a storage that satisfies the invariants of the data
  model, the winner index lies in \<^verbatim>\<open>[0, max_tickets)\<close> and the lookup succeeds. It
  fails on the storage that \<^verbatim>\<open>change_max_tickets(0)\<close>, called by the admin, makes of
  the initial one: that storage is reachable, satisfies the ledger invariants, is dense,
  has a positive ticket cost and \<^verbatim>\<open>tickets_available = 0\<close>, and there
  \<^verbatim>\<open>end_game\<close> stops at the remainder of line 79, with no index and no lookup.
\<close>

theorem end_game_no_index_counterexample:
  "exec \<lparr>sender = ''tz1i1THJ4MHiqTWsHNcZNU4YT8tPtqZW5NYE'', amount = 0, now = 0, balance = 0,
         accepts_unit = (\<lambda>a. True)\<rparr> (Change_max_tickets 0) init_storage =
     Done (init_storage\<lparr>max_tickets := 0, tickets_available := 0\<rparr>) [] \<and>
   reachable (init_storage\<lparr>max_tickets := 0, tickets_available := 0\<rparr>) \<and>
   ledger_inv (init_storage\<lparr>max_tickets := 0, tickets_available := 0\<rparr>) \<and>
   dense (players (init_storage\<lparr>max_tickets := 0, tickets_available := 0\<rparr>)) \<and>
   0 < ticket_cost (init_storage\<lparr>max_tickets := 0, tickets_available := 0\<rparr>) \<and>
   tickets_available (init_storage\<lparr>max_tickets := 0, tickets_available := 0\<rparr>) = 0 \<and>
   winner_id \<lparr>sender = ''alice'', amount = 0, now = 20, balance = 0,
              accepts_unit = (\<lambda>a. True)\<rparr>
     (init_storage\<lparr>max_tickets := 0, tickets_available := 0\<rparr>) = Inl DIVISION_BY_ZERO \<and>
   end_game \<lparr>sender = ''alice'', amount = 0, now = 20, balance = 0,
             accepts_unit = (\<lambda>a. True)\<rparr>
     (init_storage\<lparr>max_tickets := 0, tickets_available := 0\<rparr>) =
     Failed DIVISION_BY_ZERO (init_storage\<lparr>max_tickets := 0, tickets_available := 0\<rparr>) []"
proof -
  let ?s0 = "init_storage\<lparr>max_tickets := 0, tickets_available := 0\<rparr>"
  have e: "exec \<lparr>sender = ''tz1i1THJ4MHiqTWsHNcZNU4YT8tPtqZW5NYE'', amount = 0, now = 0,
                  balance = 0, accepts_unit = (\<lambda>a. True)\<rparr> (Change_max_tickets 0)
             init_storage = Done ?s0 []"
    by (simp add: change_max_tickets_def init_storage_def)
  have r: "reachable ?s0"
    using reachable_init e by (rule reachable_step)
  have i: "ledger_inv ?s0 \<and> dense (players ?s0) \<and> 0 < ticket_cost ?s0"
    by (simp add: ledger_inv_def init_storage_def tez_def)
  have w: "winner_id \<lparr>sender = ''alice'', amount = 0, now = 20, balance = 0,
              accepts_unit = (\<lambda>a. True)\<rparr> ?s0 = Inl DIVISION_BY_ZERO"
    by (simp add: winner_id_def as_nat_def mod_nat_def)
  have g: "end_game \<lparr>sender = ''alice'', amount = 0, now = 20, balance = 0,
              accepts_unit = (\<lambda>a. True)\<rparr> ?s0 = Failed DIVISION_BY_ZERO ?s0 []"
    by (simp add: end_game_def w)
  from e r i w g show ?thesis by simp
qed

text \<open>
  Claim C2, amended. Take a storage with the two ledger invariants, a dense ledger and
  \<^verbatim>\<open>tickets_available = 0\<close>. No call of \<^verbatim>\<open>end_game\<close> fails on a missing key.
  When \<^verbatim>\<open>max_tickets \<ge> 1\<close> and the time is not before the time origin, the winner
  index of line 79 is the time modulo \<^verbatim>\<open>max_tickets\<close>, it is below
  \<^verbatim>\<open>max_tickets\<close>, and the ledger holds an address at that index; the call then
  completes, unless that address has no entry point of type unit, where it stops at the
  \<^verbatim>\<open>sp.send\<close> of line 83. When \<^verbatim>\<open>max_tickets = 0\<close> the call stops at the remainder
  of line 79, and at a time before the origin it stops at \<^verbatim>\<open>sp.as_nat\<close>; in both
  cases no index exists.
\<close>

theorem end_game_lookup_succeeds:
  assumes "ledger_inv s" and "dense (players s)" and "tickets_available s = 0"
  shows "(\<forall>s' ops. end_game ctx s \<noteq> Failed MISSING_KEY s' ops) \<and>
         (1 \<le> max_tickets s \<and> 0 \<le> now ctx \<longrightarrow>
            (\<exists>w a. winner_id ctx s = Inr w \<and> w = nat (now ctx) mod max_tickets s \<and>
               w < max_tickets s \<and> fmlookup (players s) w = Some a \<and>
               end_game ctx s =
                 (if accepts_unit ctx a
                  then Done (s\<lparr>players := fmempty, tickets_available := max_tickets s\<rparr>)
                            [Transfer a (balance ctx)]
                  else Failed NO_UNIT_ENTRY_POINT s []))) \<and>
         (max_tickets s = 0 \<and> 0 \<le> now ctx \<longrightarrow>
            end_game ctx s = Failed DIVISION_BY_ZERO s []) \<and>
         (now ctx < 0 \<longrightarrow> end_game ctx s = Failed AS_NAT_NEGATIVE s [])"
proof -
  let ?w = "nat (now ctx) mod max_tickets s"
  have full: "len (players s) = max_tickets s"
    using assms(1,3) by (simp add: ledger_inv_def)
  have neg: "end_game ctx s = Failed AS_NAT_NEGATIVE s []" if "now ctx < 0"
    using that assms(3) by (simp add: end_game_def winner_id_def as_nat_def)
  have zero: "end_game ctx s = Failed DIVISION_BY_ZERO s []"
    if "max_tickets s = 0" and "0 \<le> now ctx"
    using that assms(3) by (simp add: end_game_max_zero)
  have pos: "\<exists>w a. winner_id ctx s = Inr w \<and> w = ?w \<and> w < max_tickets s \<and>
               fmlookup (players s) w = Some a \<and>
               end_game ctx s =
                 (if accepts_unit ctx a
                  then Done (s\<lparr>players := fmempty, tickets_available := max_tickets s\<rparr>)
                            [Transfer a (balance ctx)]
                  else Failed NO_UNIT_ENTRY_POINT s [])"
    if m: "1 \<le> max_tickets s" and n: "0 \<le> now ctx"
  proof -
    have range: "?w < max_tickets s" using m by simp
    with full have "?w < len (players s)" by simp
    with assms(2) obtain a where a: "fmlookup (players s) ?w = Some a"
      using dense_lookup by blast
    have id: "winner_id ctx s = Inr ?w"
      using m n by (simp add: winner_id_def as_nat_def mod_nat_def)
    have "end_game ctx s =
            (if accepts_unit ctx a
             then Done (s\<lparr>players := fmempty, tickets_available := max_tickets s\<rparr>)
                       [Transfer a (balance ctx)]
             else Failed NO_UNIT_ENTRY_POINT s [])"
      using assms(3) a id by (simp add: end_game_def send_def)
    with id range a show ?thesis by blast
  qed
  have no_missing: "end_game ctx s \<noteq> Failed MISSING_KEY s' ops" for s' ops
  proof (cases "now ctx < 0")
    case True
    then show ?thesis by (simp add: neg)
  next
    case n: False
    show ?thesis
    proof (cases "max_tickets s = 0")
      case True
      with n show ?thesis by (simp add: zero)
    next
      case False
      with n have "1 \<le> max_tickets s" and "0 \<le> now ctx" by simp_all
      from pos [OF this] show ?thesis by (auto split: if_splits)
    qed
  qed
  from neg zero pos no_missing show ?thesis by blast
qed

theorem end_game_lookup_succeeds_witness:
  "ledger_inv \<lparr>players = fmupd 1 ''bob'' (fmupd 0 ''alice'' fmempty), ticket_cost = tez 2,
      tickets_available = 0, max_tickets = 2, admin = ''carol''\<rparr> \<and>
   dense (fmupd 1 ''bob'' (fmupd 0 ''alice'' fmempty)) \<and>
   winner_id \<lparr>sender = ''alice'', amount = 0, now = 2023, balance = tez 4,
              accepts_unit = (\<lambda>a. True)\<rparr>
     \<lparr>players = fmupd 1 ''bob'' (fmupd 0 ''alice'' fmempty), ticket_cost = tez 2,
      tickets_available = 0, max_tickets = 2, admin = ''carol''\<rparr> = Inr 1 \<and>
   end_game \<lparr>sender = ''alice'', amount = 0, now = 2023, balance = tez 4,
             accepts_unit = (\<lambda>a. True)\<rparr>
     \<lparr>players = fmupd 1 ''bob'' (fmupd 0 ''alice'' fmempty), ticket_cost = tez 2,
      tickets_available = 0, max_tickets = 2, admin = ''carol''\<rparr> =
   Done \<lparr>players = fmempty, ticket_cost = tez 2, tickets_available = 2, max_tickets = 2,
         admin = ''carol''\<rparr> [Transfer ''bob'' (tez 4)]"
proof -
  let ?s = "\<lparr>players = fmupd 1 ''bob'' (fmupd 0 ''alice'' fmempty), ticket_cost = tez 2,
      tickets_available = 0, max_tickets = 2, admin = ''carol''\<rparr>"
  let ?ctx = "\<lparr>sender = ''alice'', amount = 0, now = 2023, balance = tez 4,
               accepts_unit = (\<lambda>a. True)\<rparr>"
  have h1: "ledger_inv ?s" by (simp add: ledger_inv_def len_fmupd)
  have h2: "dense (players ?s)" by (simp add: dense_def len_fmupd)
  have h3: "tickets_available ?s = 0" by simp
  from end_game_lookup_succeeds [OF h1 h2 h3, of ?ctx] h1 h2
  show ?thesis by auto
qed

text \<open>
  Claim C3, as stated: when more tickets are requested than are left, at least one is
  left and the attached amount suffices, \<^verbatim>\<open>buy_ticket\<close> never errors. It fails when a
  refund is due to a caller that has no entry point of type unit: on the initial storage
  such a contract requests 6 tickets with 6 tez, the request is clamped to 5, and the call
  stops at the \<^verbatim>\<open>sp.send\<close> of the 1 tez refund at line 45.
\<close>

theorem buy_ticket_clamp_abort_counterexample:
  "tickets_available init_storage < 6 \<and> 0 < tickets_available init_storage \<and>
   tickets_available init_storage * ticket_cost init_storage \<le>
     amount \<lparr>sender = ''KT1Caller'', amount = tez 6, now = 20, balance = tez 6,
             accepts_unit = (\<lambda>a. a \<noteq> ''KT1Caller'')\<rparr> \<and>
   buy_ticket \<lparr>sender = ''KT1Caller'', amount = tez 6, now = 20, balance = tez 6,
               accepts_unit = (\<lambda>a. a \<noteq> ''KT1Caller'')\<rparr> 6 init_storage =
     Failed NO_UNIT_ENTRY_POINT
       (init_storage\<lparr>players := fmupd 4 ''KT1Caller'' (fmupd 3 ''KT1Caller''
           (fmupd 2 ''KT1Caller'' (fmupd 1 ''KT1Caller'' (fmupd 0 ''KT1Caller'' fmempty)))),
          tickets_available := 0\<rparr>) []"
proof -
  have ledger: "buy_loop ''KT1Caller'' 0 5 fmempty =
      fmupd 4 ''KT1Caller'' (fmupd 3 ''KT1Caller'' (fmupd 2 ''KT1Caller''
        (fmupd 1 ''KT1Caller'' (fmupd 0 ''KT1Caller'' fmempty))))"
    by (simp add: buy_loop.simps len_fmupd eval_nat_numeral)
  show ?thesis
    by (simp add: buy_ticket_eq Let_def init_storage_def tez_def ledger)
qed

text \<open>
  Claim C3, amended. When more tickets are requested than are left, at least one is left,
  the attached amount covers the tickets that are left, and either it is exactly their
  cost or the caller has an entry point of type unit, \<^verbatim>\<open>buy_ticket\<close> completes: it
  charges for exactly \<^verbatim>\<open>tickets_available\<close> tickets (the rest of the amount goes
  back to the caller), and \<^verbatim>\<open>tickets_available\<close> becomes 0. On a dense ledger, as
  the data model has it, the ledger grows by exactly that many entries, all for the
  caller, at the next free indexes, and the entries it held stay as they were. When a
  refund is due and the caller has no entry point of type unit, the call fails at the
  refund.
\<close>

theorem buy_ticket_clamps:
  assumes "num_tickets > tickets_available s" and "tickets_available s > 0"
    and "amount ctx \<ge> tickets_available s * ticket_cost s"
  shows "(amount ctx = tickets_available s * ticket_cost s \<or> accepts_unit ctx (sender ctx) \<longrightarrow>
           (\<exists>s' ops. buy_ticket ctx num_tickets s = Done s' ops \<and>
              tickets_available s' = 0 \<and>
              ops = (if amount ctx > tickets_available s * ticket_cost s
                     then [Transfer (sender ctx)
                             (amount ctx - tickets_available s * ticket_cost s)]
                     else []) \<and>
              (dense (players s) \<longrightarrow>
                 len (players s') = len (players s) + tickets_available s \<and>
                 (\<forall>i. fmlookup (players s') i =
                    (if len (players s) \<le> i \<and> i < len (players s) + tickets_available s
                     then Some (sender ctx) else fmlookup (players s) i))))) \<and>
         (tickets_available s * ticket_cost s < amount ctx \<and>
          \<not> accepts_unit ctx (sender ctx) \<longrightarrow>
            (\<exists>s'. buy_ticket ctx num_tickets s = Failed NO_UNIT_ENTRY_POINT s' []))"
proof -
  let ?g = "tickets_available s"
  let ?s' = "s\<lparr>players := buy_loop (sender ctx) 0 ?g (players s), tickets_available := 0\<rparr>"
  let ?ops = "if amount ctx > ?g * ticket_cost s
              then [Transfer (sender ctx) (amount ctx - ?g * ticket_cost s)] else []"
  have m: "min num_tickets ?g = ?g" using assms(1) by simp
  have run: "buy_ticket ctx num_tickets s = Done ?s' ?ops"
    if "amount ctx = ?g * ticket_cost s \<or> accepts_unit ctx (sender ctx)"
    using that assms(2,3) by (auto simp: buy_ticket_eq m Let_def)
  have abort: "buy_ticket ctx num_tickets s = Failed NO_UNIT_ENTRY_POINT ?s' []"
    if "?g * ticket_cost s < amount ctx" and "\<not> accepts_unit ctx (sender ctx)"
    using that assms(2) by (simp add: buy_ticket_eq m Let_def)
  have grow: "len (players ?s') = len (players s) + ?g \<and>
        (\<forall>i. fmlookup (players ?s') i =
           (if len (players s) \<le> i \<and> i < len (players s) + ?g
            then Some (sender ctx) else fmlookup (players s) i))"
    if "dense (players s)"
    using buy_loop_dense [OF that, of "sender ctx" 0 ?g] by simp
  have "\<exists>s' ops. buy_ticket ctx num_tickets s = Done s' ops \<and>
              tickets_available s' = 0 \<and> ops = ?ops \<and>
              (dense (players s) \<longrightarrow>
                 len (players s') = len (players s) + ?g \<and>
                 (\<forall>i. fmlookup (players s') i =
                    (if len (players s) \<le> i \<and> i < len (players s) + ?g
                     then Some (sender ctx) else fmlookup (players s) i)))"
    if "amount ctx = ?g * ticket_cost s \<or> accepts_unit ctx (sender ctx)"
    using run [OF that] grow by simp
  with abort show ?thesis by blast
qed

theorem buy_ticket_clamps_witness:
  "tickets_available (init_storage\<lparr>max_tickets := 2, tickets_available := 2\<rparr>) < 6 \<and>
   dense (players (init_storage\<lparr>max_tickets := 2, tickets_available := 2\<rparr>)) \<and>
   buy_ticket \<lparr>sender = ''bob'', amount = tez 6, now = 20, balance = tez 6,
               accepts_unit = (\<lambda>a. True)\<rparr> 6
       (init_storage\<lparr>max_tickets := 2, tickets_available := 2\<rparr>) =
     Done (init_storage\<lparr>players := fmupd 1 ''bob'' (fmupd 0 ''bob'' fmempty),
                        max_tickets := 2, tickets_available := 0\<rparr>)
          [Transfer ''bob'' (tez 4)]"
proof -
  let ?s = "init_storage\<lparr>max_tickets := 2, tickets_available := 2\<rparr>"
  let ?ctx = "\<lparr>sender = ''bob'', amount = tez 6, now = 20, balance = tez 6,
               accepts_unit = (\<lambda>a. True)\<rparr>"
  have h1: "6 > tickets_available ?s" by simp
  have h2: "tickets_available ?s > 0" by simp
  have h3: "amount ?ctx \<ge> tickets_available ?s * ticket_cost ?s"
    by (simp add: init_storage_def tez_def)
  have d: "dense (players ?s)" by (simp add: init_storage_def)
  have e: "buy_ticket ?ctx 6 ?s =
     Done (init_storage\<lparr>players := fmupd 1 ''bob'' (fmupd 0 ''bob'' fmempty),
                        max_tickets := 2, tickets_available := 0\<rparr>)
          [Transfer ''bob'' (tez 4)]"
    by (simp add: buy_ticket_eq Let_def init_storage_def tez_def buy_loop.simps len_fmupd)
  from buy_ticket_clamps [OF h1 h2 h3] h1 d e show ?thesis by simp
qed

text \<open>
  Claim C4, as stated: a successful \<^verbatim>\<open>buy_ticket(n)\<close> with
  \<^verbatim>\<open>a \<ge> n * ticket_cost\<close> attached refunds exactly \<^verbatim>\<open>a - n * ticket_cost\<close>, and
  nothing when \<^verbatim>\<open>a\<close> equals that cost. It fails when the request is clamped: on the
  initial storage (5 tickets of 1 tez) a request for 6 tickets with 6 tez attached
  completes, and 1 tez goes back to the caller, although 6 tez is exactly the cost of 6
  tickets.
\<close>

theorem buy_ticket_refund_counterexample:
  "amount \<lparr>sender = ''bob'', amount = tez 6, now = 20, balance = tez 6,
       accepts_unit = (\<lambda>a. True)\<rparr> \<ge>
     6 * ticket_cost init_storage \<and>
   amount \<lparr>sender = ''bob'', amount = tez 6, now = 20, balance = tez 6,
       accepts_unit = (\<lambda>a. True)\<rparr> -
     6 * ticket_cost init_storage = 0 \<and>
   buy_ticket \<lparr>sender = ''bob'', amount = tez 6, now = 20, balance = tez 6,
       accepts_unit = (\<lambda>a. True)\<rparr> 6 init_storage =
     Done (init_storage\<lparr>players := fmupd 4 ''bob'' (fmupd 3 ''bob'' (fmupd 2 ''bob''
              (fmupd 1 ''bob'' (fmupd 0 ''bob'' fmempty)))), tickets_available := 0\<rparr>)
          [Transfer ''bob'' (tez 1)]"
proof -
  have ledger: "buy_loop ''bob'' 0 5 fmempty =
      fmupd 4 ''bob'' (fmupd 3 ''bob'' (fmupd 2 ''bob''
        (fmupd 1 ''bob'' (fmupd 0 ''bob'' fmempty))))"
    by (simp add: buy_loop.simps len_fmupd eval_nat_numeral)
  show ?thesis
    by (simp add: buy_ticket_eq Let_def init_storage_def tez_def ledger)
qed

text \<open>
  Claim C4, amended: a successful \<^verbatim>\<open>buy_ticket(n)\<close> with amount \<^verbatim>\<open>a\<close> attached
  refunds exactly \<^verbatim>\<open>a - g * ticket_cost\<close>, where \<^verbatim>\<open>g = min(n, tickets_available)\<close>
  is the number of tickets granted: one transfer of that difference to the caller when
  it is positive, and no transfer when \<^verbatim>\<open>a\<close> equals \<^verbatim>\<open>g * ticket_cost\<close>. When
  \<^verbatim>\<open>n \<le> tickets_available\<close> the refund is \<^verbatim>\<open>a - n * ticket_cost\<close>.
\<close>

theorem buy_ticket_refund:
  assumes "buy_ticket ctx n s = Done s' ops"
  shows "min n (tickets_available s) * ticket_cost s \<le> amount ctx \<and>
         ops = (if amount ctx - min n (tickets_available s) * ticket_cost s > 0
                then [Transfer (sender ctx)
                        (amount ctx - min n (tickets_available s) * ticket_cost s)]
                else []) \<and>
         (n \<le> tickets_available s \<longrightarrow>
            ops = (if amount ctx - n * ticket_cost s > 0
                   then [Transfer (sender ctx) (amount ctx - n * ticket_cost s)]
                   else []))"
proof -
  let ?c = "min n (tickets_available s) * ticket_cost s"
  from assms have le: "?c \<le> amount ctx"
    by (simp add: buy_ticket_eq Let_def split: if_splits)
  from assms have ops: "ops = (if ?c < amount ctx
                               then [Transfer (sender ctx) (amount ctx - ?c)] else [])"
    by (simp add: buy_ticket_eq Let_def split: if_splits)
  have "min n (tickets_available s) = n" if "n \<le> tickets_available s"
    using that by simp
  with le ops show ?thesis by auto
qed

theorem buy_ticket_refund_witness:
  "buy_ticket \<lparr>sender = ''bob'', amount = tez 2, now = 20, balance = tez 2,
       accepts_unit = (\<lambda>a. True)\<rparr> 1 init_storage =
     Done (init_storage\<lparr>players := fmupd 0 ''bob'' fmempty, tickets_available := 4\<rparr>)
          [Transfer ''bob'' (tez 1)] \<and>
   amount \<lparr>sender = ''bob'', amount = tez 2, now = 20, balance = tez 2,
       accepts_unit = (\<lambda>a. True)\<rparr> -
     1 * ticket_cost init_storage = tez 1"
proof -
  have e: "buy_ticket \<lparr>sender = ''bob'', amount = tez 2, now = 20, balance = tez 2,
       accepts_unit = (\<lambda>a. True)\<rparr> 1
             init_storage =
     Done (init_storage\<lparr>players := fmupd 0 ''bob'' fmempty, tickets_available := 4\<rparr>)
          [Transfer ''bob'' (tez 1)]"
    by (simp add: buy_ticket_eq Let_def init_storage_def tez_def buy_loop.simps len_fmupd)
  from buy_ticket_refund [OF e] e show ?thesis
    by (simp add: init_storage_def tez_def)
qed




text \<open>
  Claim C6. \<^verbatim>\<open>change_ticket_cost\<close> and \<^verbatim>\<open>change_max_tickets\<close> each succeed exactly
  when the caller is the admin and the round is fresh
  (\<^verbatim>\<open>tickets_available = max_tickets\<close>). A caller who is not the admin gets
  \<^verbatim>\<open>NOT AUTHORIZED\<close>, whether the round is fresh or not; the admin on a started round
  gets \<^verbatim>\<open>GAME ALREADY STARTED\<close>. At either failure the storage is the one before the
  call and no transfer was emitted.
\<close>

theorem admin_changes_succeed_iff:
  "((\<exists>s' ops. change_ticket_cost ctx c s = Done s' ops) \<longleftrightarrow>
      sender ctx = admin s \<and> tickets_available s = max_tickets s) \<and>
   (sender ctx \<noteq> admin s \<longrightarrow> change_ticket_cost ctx c s = Failed NOT_AUTHORIZED s []) \<and>
   (sender ctx = admin s \<and> tickets_available s \<noteq> max_tickets s \<longrightarrow>
      change_ticket_cost ctx c s = Failed GAME_ALREADY_STARTED s []) \<and>
   ((\<exists>s' ops. change_max_tickets ctx m s = Done s' ops) \<longleftrightarrow>
      sender ctx = admin s \<and> tickets_available s = max_tickets s) \<and>
   (sender ctx \<noteq> admin s \<longrightarrow> change_max_tickets ctx m s = Failed NOT_AUTHORIZED s []) \<and>
   (sender ctx = admin s \<and> tickets_available s \<noteq> max_tickets s \<longrightarrow>
      change_max_tickets ctx m s = Failed GAME_ALREADY_STARTED s [])"
  by (simp add: change_ticket_cost_def change_max_tickets_def Let_def)

theorem admin_changes_succeed_iff_witness:
  "change_ticket_cost \<lparr>sender = ''alice'', amount = 0, now = 0, balance = 0,
       accepts_unit = (\<lambda>a. True)\<rparr> (tez 3)
     init_storage = Failed NOT_AUTHORIZED init_storage [] \<and>
   change_max_tickets \<lparr>sender = ''tz1i1THJ4MHiqTWsHNcZNU4YT8tPtqZW5NYE'', amount = 0, now = 0,
       balance = 0,
       accepts_unit = (\<lambda>a. True)\<rparr> 15 (init_storage\<lparr>tickets_available := 4\<rparr>) =
     Failed GAME_ALREADY_STARTED (init_storage\<lparr>tickets_available := 4\<rparr>) [] \<and>
   (\<exists>s' ops. change_max_tickets \<lparr>sender = ''tz1i1THJ4MHiqTWsHNcZNU4YT8tPtqZW5NYE'',
       amount = 0, now = 0, balance = 0,
       accepts_unit = (\<lambda>a. True)\<rparr> 10 init_storage = Done s' ops)"
proof -
  have "change_ticket_cost \<lparr>sender = ''alice'', amount = 0, now = 0, balance = 0,
       accepts_unit = (\<lambda>a. True)\<rparr> (tez 3)
     init_storage = Failed NOT_AUTHORIZED init_storage []"
    using admin_changes_succeed_iff
      [of "\<lparr>sender = ''alice'', amount = 0, now = 0, balance = 0,
       accepts_unit = (\<lambda>a. True)\<rparr>" "tez 3" init_storage 0]
    by (simp add: init_storage_def)
  moreover have "change_max_tickets \<lparr>sender = ''tz1i1THJ4MHiqTWsHNcZNU4YT8tPtqZW5NYE'',
       amount = 0, now = 0, balance = 0,
       accepts_unit = (\<lambda>a. True)\<rparr> 15 (init_storage\<lparr>tickets_available := 4\<rparr>) =
     Failed GAME_ALREADY_STARTED (init_storage\<lparr>tickets_available := 4\<rparr>) []"
    using admin_changes_succeed_iff
      [of "\<lparr>sender = ''tz1i1THJ4MHiqTWsHNcZNU4YT8tPtqZW5NYE'', amount = 0, now = 0,
            balance = 0,
       accepts_unit = (\<lambda>a. True)\<rparr>" 0 "init_storage\<lparr>tickets_available := 4\<rparr>" 15]
    by (simp add: init_storage_def)
  moreover have "\<exists>s' ops. change_max_tickets \<lparr>sender = ''tz1i1THJ4MHiqTWsHNcZNU4YT8tPtqZW5NYE'',
       amount = 0, now = 0, balance = 0,
       accepts_unit = (\<lambda>a. True)\<rparr> 10 init_storage = Done s' ops"
    using admin_changes_succeed_iff
      [of "\<lparr>sender = ''tz1i1THJ4MHiqTWsHNcZNU4YT8tPtqZW5NYE'', amount = 0, now = 0,
            balance = 0,
       accepts_unit = (\<lambda>a. True)\<rparr>" 0 init_storage 10]
    by (simp add: init_storage_def)
  ultimately show ?thesis by simp
qed

text \<open>
  Claim C7. After a successful \<^verbatim>\<open>end_game\<close> the ledger \<^verbatim>\<open>players\<close> is empty and
  \<^verbatim>\<open>tickets_available\<close> equals \<^verbatim>\<open>max_tickets\<close>, while \<^verbatim>\<open>ticket_cost\<close>,
  \<^verbatim>\<open>max_tickets\<close> and \<^verbatim>\<open>admin\<close> are those of the storage before the call, whatever
  the ledger held. The call emits exactly one transfer: the whole balance, to the holder
  of the ticket whose index is the time in seconds modulo \<^verbatim>\<open>max_tickets\<close>.
\<close>

theorem end_game_resets:
  assumes "end_game ctx s = Done s' ops"
  shows "players s' = fmempty \<and>
         tickets_available s' = max_tickets s' \<and>
         ticket_cost s' = ticket_cost s \<and>
         max_tickets s' = max_tickets s \<and>
         admin s' = admin s \<and>
         (\<exists>winner_address.
            fmlookup (players s) (nat (now ctx) mod max_tickets s) = Some winner_address \<and>
            ops = [Transfer winner_address (balance ctx)])"
  using end_game_Done [OF assms] by auto

theorem end_game_resets_witness:
  "end_game \<lparr>sender = ''alice'', amount = 0, now = 2023, balance = tez 4,
       accepts_unit = (\<lambda>a. True)\<rparr>
     \<lparr>players = fmupd 1 ''bob'' (fmupd 0 ''alice'' fmempty), ticket_cost = tez 2,
      tickets_available = 0, max_tickets = 2, admin = ''carol''\<rparr> =
   Done \<lparr>players = fmempty, ticket_cost = tez 2, tickets_available = 2, max_tickets = 2,
         admin = ''carol''\<rparr> [Transfer ''bob'' (tez 4)] \<and>
   max_tickets \<lparr>players = fmempty, ticket_cost = tez 2, tickets_available = 2,
         max_tickets = 2, admin = ''carol''\<rparr> = 2"
proof -
  have h: "end_game \<lparr>sender = ''alice'', amount = 0, now = 2023, balance = tez 4,
       accepts_unit = (\<lambda>a. True)\<rparr>
     \<lparr>players = fmupd 1 ''bob'' (fmupd 0 ''alice'' fmempty), ticket_cost = tez 2,
      tickets_available = 0, max_tickets = 2, admin = ''carol''\<rparr> =
   Done \<lparr>players = fmempty, ticket_cost = tez 2, tickets_available = 2, max_tickets = 2,
         admin = ''carol''\<rparr> [Transfer ''bob'' (tez 4)]"
    by (simp add: end_game_def winner_id_def as_nat_def mod_nat_def send_def)
  from end_game_resets [OF h] h show ?thesis by simp
qed

text \<open>
  Claim C8, as stated: no successful call leaves \<^verbatim>\<open>ticket_cost\<close> at a value that is
  not positive. It fails for \<^verbatim>\<open>change_ticket_cost\<close>, which stores any amount of type
  \<^verbatim>\<open>sp.TMutez\<close>: the admin, on the initial storage, sets the cost to 0.
\<close>

theorem change_ticket_cost_zero_counterexample:
  "0 < ticket_cost init_storage \<and>
   change_ticket_cost
     \<lparr>sender = ''tz1i1THJ4MHiqTWsHNcZNU4YT8tPtqZW5NYE'', amount = 0, now = 0, balance = 0,
       accepts_unit = (\<lambda>a. True)\<rparr>
     0 init_storage = Done (init_storage\<lparr>ticket_cost := 0\<rparr>) [] \<and>
   \<not> 0 < ticket_cost (init_storage\<lparr>ticket_cost := 0\<rparr>)"
  by (simp add: change_ticket_cost_def init_storage_def tez_def)

text \<open>
  Claim C8, amended: a successful \<^verbatim>\<open>change_ticket_cost(new_cost)\<close> sets
  \<^verbatim>\<open>ticket_cost\<close> to \<^verbatim>\<open>new_cost\<close>, whatever its value, and every other successful
  call leaves \<^verbatim>\<open>ticket_cost\<close> as it was. So \<^verbatim>\<open>ticket_cost > 0\<close> holds after a
  successful call when it held before, provided that a new cost, if the call sets one,
  is positive.
\<close>

theorem ticket_cost_positive_preserved:
  assumes "exec ctx c s = Done s' ops"
  shows "(\<forall>new_cost. c = Change_ticket_cost new_cost \<longrightarrow> ticket_cost s' = new_cost) \<and>
         ((\<forall>new_cost. c \<noteq> Change_ticket_cost new_cost) \<longrightarrow> ticket_cost s' = ticket_cost s) \<and>
         (0 < ticket_cost s \<and> (\<forall>new_cost. c = Change_ticket_cost new_cost \<longrightarrow> 0 < new_cost)
            \<longrightarrow> 0 < ticket_cost s')"
proof (cases c)
  case (Buy_ticket n)
  with assms have "ticket_cost s' = ticket_cost s"
    by (auto simp: buy_ticket_eq Let_def split: if_splits)
  with Buy_ticket show ?thesis by simp
next
  case (Change_ticket_cost m)
  with assms have "ticket_cost s' = m"
    by (auto simp: change_ticket_cost_def split: if_splits)
  with Change_ticket_cost show ?thesis by simp
next
  case (Change_max_tickets m)
  with assms have "ticket_cost s' = ticket_cost s"
    by (auto simp: change_max_tickets_def Let_def split: if_splits)
  with Change_max_tickets show ?thesis by simp
next
  case End_game
  with assms have "end_game ctx s = Done s' ops" by simp
  from end_game_Done [OF this] have "ticket_cost s' = ticket_cost s" by simp
  with End_game show ?thesis by simp
qed

theorem ticket_cost_positive_preserved_witness:
  "exec \<lparr>sender = ''tz1i1THJ4MHiqTWsHNcZNU4YT8tPtqZW5NYE'', amount = 0, now = 0, balance = 0,
       accepts_unit = (\<lambda>a. True)\<rparr>
     (Change_ticket_cost (tez 2)) init_storage = Done (init_storage\<lparr>ticket_cost := tez 2\<rparr>) [] \<and>
   0 < ticket_cost init_storage \<and> 0 < tez 2 \<and>
   0 < ticket_cost (init_storage\<lparr>ticket_cost := tez 2\<rparr>)"
proof -
  have e: "exec \<lparr>sender = ''tz1i1THJ4MHiqTWsHNcZNU4YT8tPtqZW5NYE'', amount = 0, now = 0,
                  balance = 0,
       accepts_unit = (\<lambda>a. True)\<rparr>
     (Change_ticket_cost (tez 2)) init_storage = Done (init_storage\<lparr>ticket_cost := tez 2\<rparr>) []"
    by (simp add: change_ticket_cost_def init_storage_def)
  have p: "0 < ticket_cost init_storage \<and> 0 < tez 2"
    by (simp add: init_storage_def tez_def)
  from ticket_cost_positive_preserved [OF e] e p show ?thesis by simp
qed

text \<open>
  Claim C9, as stated: every call \<^verbatim>\<open>buy_ticket(0)\<close> with tickets left succeeds. It
  fails when an amount is attached by a caller that has no entry point of type unit: on
  the initial storage such a contract calls \<^verbatim>\<open>buy_ticket(0)\<close> with 7 mutez, and the
  call stops at the \<^verbatim>\<open>sp.send\<close> of the refund at line 45.
\<close>

theorem buy_ticket_zero_abort_counterexample:
  "0 < tickets_available init_storage \<and>
   buy_ticket \<lparr>sender = ''KT1Caller'', amount = 7, now = 20, balance = 7,
               accepts_unit = (\<lambda>a. a \<noteq> ''KT1Caller'')\<rparr> 0 init_storage =
     Failed NO_UNIT_ENTRY_POINT init_storage []"
  by (simp add: buy_ticket_eq Let_def init_storage_def)

text \<open>
  Claim C9, amended. A call \<^verbatim>\<open>buy_ticket(0)\<close> with tickets left buys nothing and
  costs nothing (zero tickets times the ticket cost is zero). When no amount is attached,
  or the caller has an entry point of type unit, it succeeds: the storage after the call
  is the storage before it (so \<^verbatim>\<open>players\<close> and \<^verbatim>\<open>tickets_available\<close> keep their
  values), and the whole attached amount goes back to the caller (one transfer of the
  amount, or no transfer when nothing was attached). When an amount is attached by a
  caller that has no entry point of type unit, the call fails at the refund, with the
  storage as it was and no transfer.
\<close>

theorem buy_ticket_zero_noop:
  assumes "tickets_available s > 0"
  shows "buy_ticket ctx 0 s =
           (if 0 < amount ctx \<and> \<not> accepts_unit ctx (sender ctx)
            then Failed NO_UNIT_ENTRY_POINT s []
            else Done s (if amount ctx > 0 then [Transfer (sender ctx) (amount ctx)] else [])) \<and>
         min 0 (tickets_available s) * ticket_cost s = 0"
  using assms by (simp add: buy_ticket_eq Let_def)

theorem buy_ticket_zero_noop_witness:
  "tickets_available init_storage > 0 \<and>
   buy_ticket \<lparr>sender = ''alice'', amount = 7, now = 20, balance = 7,
               accepts_unit = (\<lambda>a. True)\<rparr> 0 init_storage =
     Done init_storage [Transfer ''alice'' 7]"
proof -
  have h: "tickets_available init_storage > 0" by (simp add: init_storage_def)
  from buy_ticket_zero_noop
    [OF h, of "\<lparr>sender = ''alice'', amount = 7, now = 20, balance = 7,
                accepts_unit = (\<lambda>a. True)\<rparr>"] h
  show ?thesis by simp
qed

text \<open>
  Claim C10. \<^verbatim>\<open>change_max_tickets\<close> has no lower bound on its argument: called by the
  admin on a fresh round with 0, it completes and sets \<^verbatim>\<open>max_tickets\<close> and
  \<^verbatim>\<open>tickets_available\<close> to 0, leaving \<^verbatim>\<open>players\<close> as it was, which is empty when
  the ledger invariants held before. The storage after the call has
  \<^verbatim>\<open>tickets_available = 0\<close>, the precondition of \<^verbatim>\<open>end_game\<close>, over an empty ledger.
\<close>

theorem change_max_tickets_zero:
  assumes "sender ctx = admin s" and "tickets_available s = max_tickets s"
  shows "change_max_tickets ctx 0 s =
           Done (s\<lparr>max_tickets := 0, tickets_available := 0\<rparr>) [] \<and>
         players (s\<lparr>max_tickets := 0, tickets_available := 0\<rparr>) = players s \<and>
         (ledger_inv s \<longrightarrow> players s = fmempty) \<and>
         (\<forall>ctx' s' ops.
            end_game ctx' (s\<lparr>max_tickets := 0, tickets_available := 0\<rparr>)
              \<noteq> Failed GAME_IS_YET_TO_END s' ops)"
proof -
  let ?s0 = "s\<lparr>max_tickets := 0, tickets_available := 0\<rparr>"
  have run: "change_max_tickets ctx 0 s = Done ?s0 []"
    using assms by (simp add: change_max_tickets_def Let_def)
  have empty: "players s = fmempty" if "ledger_inv s"
    using that assms(2) by (simp add: ledger_inv_def len_0_fmempty)
  have passes: "end_game ctx' ?s0 \<noteq> Failed GAME_IS_YET_TO_END s' ops" for ctx' s' ops
  proof -
    have "winner_id ctx' ?s0 = Inl AS_NAT_NEGATIVE \<or>
          winner_id ctx' ?s0 = Inl DIVISION_BY_ZERO"
      by (simp add: winner_id_def as_nat_def mod_nat_def)
    then show ?thesis by (auto simp: end_game_def)
  qed
  from run empty passes show ?thesis by simp
qed

theorem change_max_tickets_zero_witness:
  "ledger_inv init_storage \<and>
   change_max_tickets
     \<lparr>sender = ''tz1i1THJ4MHiqTWsHNcZNU4YT8tPtqZW5NYE'', amount = 0, now = 0, balance = 0,
       accepts_unit = (\<lambda>a. True)\<rparr>
     0 init_storage = Done (init_storage\<lparr>max_tickets := 0, tickets_available := 0\<rparr>) [] \<and>
   players (init_storage\<lparr>max_tickets := 0, tickets_available := 0\<rparr>) = fmempty"
proof -
  let ?ctx = "\<lparr>sender = ''tz1i1THJ4MHiqTWsHNcZNU4YT8tPtqZW5NYE'', amount = 0, now = 0,
               balance = 0,
       accepts_unit = (\<lambda>a. True)\<rparr>"
  have h1: "sender ?ctx = admin init_storage" by (simp add: init_storage_def)
  have h2: "tickets_available init_storage = max_tickets init_storage"
    by (simp add: init_storage_def)
  have i: "ledger_inv init_storage" by (simp add: init_inv_dense)
  from change_max_tickets_zero [OF h1 h2] i show ?thesis by simp
qed

end
